theory Spec2Isabelle
  imports Main "HOL-Library.Sublist"
begin

section \<open>The Chromatek RGB push button switch controller\<close>

text \<open>
  A shallow embedding of the class \<open>ChromatekSwitch\<close> of \<open>chromatek_switch.py\<close>.
  The class owns no hardware logic of its own: every method forwards to one of two
  libraries, \<open>rpi_ws281x\<close> (the pixel strip) and \<open>RPi.GPIO\<close> (the button line).
  Neither library is part of the repository, so the model keeps them abstract:
  \<^item> every library call the class issues is appended to a trace, oldest first, marked
    \<open>Done\<close> when it returned and \<open>Failed\<close> when it raised;
  \<^item> whether a call raises is decided by a parameter \<open>lib\<close>, a function of the trace so
    far and the call;
  \<^item> the class has no \<open>raise\<close> and no \<open>try\<close>: an exception of a library call, or of
    a listener, leaves the method at once and reaches the caller unchanged;
  \<^item> a listener is an opaque callable, identified by a value of type \<open>'cb\<close>; running it
    is one more entry of the trace. What a listener does inside is not part of the
    class, and the model takes it not to register listeners while it runs.
\<close>

subsection \<open>The libraries\<close>

datatype level = LOW | HIGH

datatype edge = RISING | FALLING | BOTH

text \<open>\<open>Color(red, green, blue)\<close> of \<open>rpi_ws281x\<close>, kept as the three arguments.\<close>

datatype colour = Color int int int

datatype 'cb call =
    PixelStrip int int int int bool int int
  | Strip_begin
  | Strip_setPixelColor int colour
  | Strip_show
  | Strip_setBrightness int
  | GPIO_setmode_BCM
  | GPIO_setup_IN_PUD_UP int
  | GPIO_input int
  | GPIO_add_event_detect int edge int
  | GPIO_cleanup
  | Callback 'cb

datatype 'cb entry = Done "'cb call" | Failed "'cb call"

datatype 'cb error = Raised "'cb call"

text \<open>\<open>lib h c\<close> holds when the call \<open>c\<close>, issued after the trace \<open>h\<close>, raises.\<close>

type_synonym 'cb platform = "'cb entry list \<Rightarrow> 'cb call \<Rightarrow> bool"

text \<open>A platform on which no call ever raises.\<close>

definition quiet :: "'cb platform" where
  "quiet h c = False"

definition call :: "'cb platform \<Rightarrow> 'cb call \<Rightarrow> 'cb entry list \<Rightarrow> ('cb error + unit) \<times> 'cb entry list" where
  "call lib c h =
     (if lib h c then (Inl (Raised c), h @ [Failed c]) else (Inr (), h @ [Done c]))"

subsection \<open>The class\<close>

definition LED_COUNT :: int where "LED_COUNT = 1"
definition LED_PIN :: int where "LED_PIN = 18"
definition LED_FREQ_HZ :: int where "LED_FREQ_HZ = 800000"
definition LED_DMA :: int where "LED_DMA = 10"
definition LED_INVERT :: bool where "LED_INVERT = False"
definition LED_CHANNEL :: int where "LED_CHANNEL = 0"
definition BUTTON_PIN :: int where "BUTTON_PIN = 23"

text \<open>
  The instance attributes set by \<open>__init__\<close> (the attribute \<open>strip\<close> is the one pixel
  strip the trace speaks about), together with the trace of library calls.
\<close>

record 'cb switch =
  LED_BRIGHTNESS :: int
  press_callbacks :: "'cb list"
  release_callbacks :: "'cb list"
  button_event_added :: bool
  trace :: "'cb entry list"

definition ext :: "'cb platform \<Rightarrow> 'cb call \<Rightarrow> 'cb switch \<Rightarrow> ('cb error + unit) \<times> 'cb switch" where
  "ext lib c s = (case call lib c (trace s) of (r, h) \<Rightarrow> (r, s\<lparr>trace := h\<rparr>))"

text \<open>
  \<open>__init__\<close>: the strip is created and begun, then the button line is set up, then the
  listener storage is initialised. A call that raises ends the construction: there is
  no object, only the error and the trace so far.
\<close>

definition init :: "'cb platform \<Rightarrow> int \<Rightarrow> 'cb entry list \<Rightarrow> ('cb error \<times> 'cb entry list) + 'cb switch" where
  "init lib brightness h0 =
     (case call lib (PixelStrip LED_COUNT LED_PIN LED_FREQ_HZ LED_DMA LED_INVERT brightness LED_CHANNEL) h0 of
        (Inl e, h1) \<Rightarrow> Inl (e, h1)
      | (Inr _, h1) \<Rightarrow>
     (case call lib Strip_begin h1 of
        (Inl e, h2) \<Rightarrow> Inl (e, h2)
      | (Inr _, h2) \<Rightarrow>
     (case call lib GPIO_setmode_BCM h2 of
        (Inl e, h3) \<Rightarrow> Inl (e, h3)
      | (Inr _, h3) \<Rightarrow>
     (case call lib (GPIO_setup_IN_PUD_UP BUTTON_PIN) h3 of
        (Inl e, h4) \<Rightarrow> Inl (e, h4)
      | (Inr _, h4) \<Rightarrow>
          Inr \<lparr>LED_BRIGHTNESS = brightness, press_callbacks = [], release_callbacks = [],
               button_event_added = False, trace = h4\<rparr>))))"

definition set_color :: "'cb platform \<Rightarrow> int \<Rightarrow> int \<Rightarrow> int \<Rightarrow> 'cb switch \<Rightarrow> ('cb error + unit) \<times> 'cb switch" where
  "set_color lib red green blue s =
     (let color = Color red green blue in
      case ext lib (Strip_setPixelColor 0 color) s of
        (Inl e, s1) \<Rightarrow> (Inl e, s1)
      | (Inr _, s1) \<Rightarrow> ext lib Strip_show s1)"

text \<open>\<open>turn_on\<close>: a caller that leaves an argument out passes the default 255.\<close>

definition turn_on :: "'cb platform \<Rightarrow> int \<Rightarrow> int \<Rightarrow> int \<Rightarrow> 'cb switch \<Rightarrow> ('cb error + unit) \<times> 'cb switch" where
  "turn_on lib red green blue s = set_color lib red green blue s"

definition turn_off :: "'cb platform \<Rightarrow> 'cb switch \<Rightarrow> ('cb error + unit) \<times> 'cb switch" where
  "turn_off lib s = set_color lib 0 0 0 s"

definition set_brightness :: "'cb platform \<Rightarrow> int \<Rightarrow> 'cb switch \<Rightarrow> ('cb error + unit) \<times> 'cb switch" where
  "set_brightness lib brightness s =
     (case ext lib (Strip_setBrightness brightness) s of
        (Inl e, s1) \<Rightarrow> (Inl e, s1)
      | (Inr _, s1) \<Rightarrow> ext lib Strip_show s1)"

text \<open>
  \<open>get_button_state\<close>: \<open>lvl\<close> is the level of the line at the moment of the call, the
  value \<open>GPIO.input\<close> returns.
\<close>

definition get_button_state :: "'cb platform \<Rightarrow> level \<Rightarrow> 'cb switch \<Rightarrow> ('cb error + bool) \<times> 'cb switch" where
  "get_button_state lib lvl s =
     (case ext lib (GPIO_input BUTTON_PIN) s of
        (Inl e, s1) \<Rightarrow> (Inl e, s1)
      | (Inr _, s1) \<Rightarrow> (Inr (lvl = LOW), s1))"

definition setup_button_events :: "'cb platform \<Rightarrow> 'cb switch \<Rightarrow> ('cb error + unit) \<times> 'cb switch" where
  "setup_button_events lib s =
     (if \<not> button_event_added s then
        (case ext lib (GPIO_add_event_detect BUTTON_PIN BOTH 200) s of
           (Inl e, s1) \<Rightarrow> (Inl e, s1)
         | (Inr _, s1) \<Rightarrow> (Inr (), s1\<lparr>button_event_added := True\<rparr>))
      else (Inr (), s))"

definition on_button_press :: "'cb platform \<Rightarrow> 'cb \<Rightarrow> 'cb switch \<Rightarrow> ('cb error + unit) \<times> 'cb switch" where
  "on_button_press lib callback s =
     setup_button_events lib (s\<lparr>press_callbacks := press_callbacks s @ [callback]\<rparr>)"

definition on_button_release :: "'cb platform \<Rightarrow> 'cb \<Rightarrow> 'cb switch \<Rightarrow> ('cb error + unit) \<times> 'cb switch" where
  "on_button_release lib callback s =
     setup_button_events lib (s\<lparr>release_callbacks := release_callbacks s @ [callback]\<rparr>)"

text \<open>The loop \<open>for callback in callbacks: callback()\<close>.\<close>

fun run_callbacks :: "'cb platform \<Rightarrow> 'cb list \<Rightarrow> 'cb switch \<Rightarrow> ('cb error + unit) \<times> 'cb switch" where
  "run_callbacks lib [] s = (Inr (), s)"
| "run_callbacks lib (callback # callbacks) s =
     (case ext lib (Callback callback) s of
        (Inl e, s1) \<Rightarrow> (Inl e, s1)
      | (Inr _, s1) \<Rightarrow> run_callbacks lib callbacks s1)"

text \<open>
  \<open>_button_event_handler\<close>: the argument \<open>channel\<close> is not used by the body; \<open>lvl\<close> is the
  level of the line when the handler runs.
\<close>

definition button_event_handler :: "'cb platform \<Rightarrow> int \<Rightarrow> level \<Rightarrow> 'cb switch \<Rightarrow> ('cb error + unit) \<times> 'cb switch" where
  "button_event_handler lib channel lvl s =
     (case get_button_state lib lvl s of
        (Inl e, s1) \<Rightarrow> (Inl e, s1)
      | (Inr pressed, s1) \<Rightarrow>
          (if pressed then run_callbacks lib (press_callbacks s1) s1
           else run_callbacks lib (release_callbacks s1) s1))"

definition cleanup :: "'cb platform \<Rightarrow> 'cb switch \<Rightarrow> ('cb error + unit) \<times> 'cb switch" where
  "cleanup lib s =
     (case turn_off lib s of
        (Inl e, s1) \<Rightarrow> (Inl e, s1)
      | (Inr _, s1) \<Rightarrow> ext lib GPIO_cleanup s1)"

definition enter :: "'cb switch \<Rightarrow> 'cb switch" where
  "enter s = s"

text \<open>
  \<open>__exit__\<close> calls \<open>cleanup\<close> and returns \<open>None\<close>, which is false: the exception of the
  body, if any, is not suppressed.
\<close>

definition exit_switch :: "'cb platform \<Rightarrow> 'cb error option \<Rightarrow> 'cb switch \<Rightarrow> ('cb error + bool) \<times> 'cb switch" where
  "exit_switch lib exc s =
     (case cleanup lib s of
        (Inl e, s1) \<Rightarrow> (Inl e, s1)
      | (Inr _, s1) \<Rightarrow> (Inr False, s1))"

text \<open>
  The statement \<open>with switch: body\<close>. The body ends normally, by a \<open>return\<close>, or by an
  exception; \<open>__exit__\<close> runs in all three cases, with the exception if there is one.
  An exception of \<open>__exit__\<close> replaces the outcome of the body; otherwise a true result
  of \<open>__exit__\<close> would suppress the exception of the body.
\<close>

datatype ('cb, 'a) completion = Normal | Return 'a | Raise "'cb error"

fun exc_info :: "('cb, 'a) completion \<Rightarrow> 'cb error option" where
  "exc_info (Raise e) = Some e"
| "exc_info _ = None"

definition with_switch ::
  "'cb platform \<Rightarrow> ('cb switch \<Rightarrow> ('cb, 'a) completion \<times> 'cb switch) \<Rightarrow> 'cb switch \<Rightarrow> ('cb, 'a) completion \<times> 'cb switch" where
  "with_switch lib body s =
     (case body (enter s) of (c, s1) \<Rightarrow>
        (case exit_switch lib (exc_info c) s1 of
           (Inl e, s2) \<Rightarrow> (Raise e, s2)
         | (Inr suppress, s2) \<Rightarrow>
             (case c of
                Raise e \<Rightarrow> if suppress then (Normal, s2) else (Raise e, s2)
              | _ \<Rightarrow> (c, s2))))"

subsection \<open>Clients: registrations and edge notifications\<close>

datatype 'cb registration = OnPress 'cb | OnRelease 'cb

fun register :: "'cb platform \<Rightarrow> 'cb registration \<Rightarrow> 'cb switch \<Rightarrow> ('cb error + unit) \<times> 'cb switch" where
  "register lib (OnPress callback) s = on_button_press lib callback s"
| "register lib (OnRelease callback) s = on_button_release lib callback s"

text \<open>A client that registers one listener after the other, whatever each call returns.\<close>

fun register_all :: "'cb platform \<Rightarrow> 'cb registration list \<Rightarrow> 'cb switch \<Rightarrow> 'cb switch" where
  "register_all lib [] s = s"
| "register_all lib (r # rs) s = register_all lib rs (snd (register lib r s))"

fun press_of :: "'cb registration \<Rightarrow> 'cb list" where
  "press_of (OnPress callback) = [callback]"
| "press_of (OnRelease callback) = []"

fun release_of :: "'cb registration \<Rightarrow> 'cb list" where
  "release_of (OnPress callback) = []"
| "release_of (OnRelease callback) = [callback]"

text \<open>
  An edge notification: the time in milliseconds at which the GPIO library runs the
  handler it was given by \<open>add_event_detect\<close>, and the level of the line at that time.
  The handler receives the channel only; it has no clock.
\<close>

type_synonym notification = "nat \<times> level"

definition deliver :: "'cb platform \<Rightarrow> notification \<Rightarrow> 'cb switch \<Rightarrow> ('cb error + unit) \<times> 'cb switch" where
  "deliver lib n s = button_event_handler lib BUTTON_PIN (snd n) s"

fun deliver_all :: "'cb platform \<Rightarrow> notification list \<Rightarrow> 'cb switch \<Rightarrow> 'cb switch" where
  "deliver_all lib [] s = s"
| "deliver_all lib (n # ns) s = deliver_all lib ns (snd (deliver lib n s))"

subsection \<open>Reading a trace\<close>

text \<open>The listeners run in a trace, in order; one that raised was run all the same.\<close>

fun callback_of :: "'cb entry \<Rightarrow> 'cb list" where
  "callback_of (Done (Callback callback)) = [callback]"
| "callback_of (Failed (Callback callback)) = [callback]"
| "callback_of _ = []"

definition invoked :: "'cb entry list \<Rightarrow> 'cb list" where
  "invoked h = concat (map callback_of h)"

fun is_read :: "'cb entry \<Rightarrow> bool" where
  "is_read (Done (GPIO_input p)) = True"
| "is_read (Failed (GPIO_input p)) = True"
| "is_read _ = False"

definition reads :: "'cb entry list \<Rightarrow> nat" where
  "reads h = length (filter is_read h)"

fun is_activation :: "'cb entry \<Rightarrow> bool" where
  "is_activation (Done (GPIO_add_event_detect p e b)) = True"
| "is_activation _ = False"

definition activations :: "'cb entry list \<Rightarrow> nat" where
  "activations h = length (filter is_activation h)"

text \<open>
  What the completed calls leave behind on the two devices: \<open>begin\<close> acquires the pixel
  output and \<open>GPIO.setup\<close> the input line; \<open>setPixelColor\<close> stages a colour for pixel 0
  and \<open>show\<close> commits what is staged; \<open>GPIO.cleanup\<close> gives the input line back. None of
  the calls the class issues gives the pixel output back.
\<close>

record hardware =
  pixel_live :: bool
  input_live :: bool
  staged :: "colour option"
  led :: "colour option"

definition hardware0 :: hardware where
  "hardware0 = \<lparr>pixel_live = False, input_live = False, staged = None, led = None\<rparr>"

fun hw_step :: "hardware \<Rightarrow> 'cb entry \<Rightarrow> hardware" where
  "hw_step w (Done Strip_begin) = w\<lparr>pixel_live := True\<rparr>"
| "hw_step w (Done (GPIO_setup_IN_PUD_UP p)) = w\<lparr>input_live := True\<rparr>"
| "hw_step w (Done (Strip_setPixelColor i c)) = (if i = 0 then w\<lparr>staged := Some c\<rparr> else w)"
| "hw_step w (Done Strip_show) = w\<lparr>led := staged w\<rparr>"
| "hw_step w (Done GPIO_cleanup) = w\<lparr>input_live := False\<rparr>"
| "hw_step w _ = w"

definition hw_of :: "'cb entry list \<Rightarrow> hardware" where
  "hw_of h = foldl hw_step hardware0 h"

subsection \<open>A constructed switch\<close>

text \<open>The object \<open>ChromatekSwitch()\<close> returns on a platform where no call raises.\<close>

definition demo :: "nat switch" where
  "demo = \<lparr>LED_BRIGHTNESS = 255, press_callbacks = [], release_callbacks = [],
            button_event_added = False,
            trace = [Done (PixelStrip 1 18 800000 10 False 255 0), Done Strip_begin,
                     Done GPIO_setmode_BCM, Done (GPIO_setup_IN_PUD_UP 23)]\<rparr>"

text \<open>The same object after \<open>on_button_press(1)\<close>: one listener, the subscription active.\<close>

definition subscribed :: "nat switch" where
  "subscribed = demo\<lparr>press_callbacks := [1], button_event_added := True,
                      trace := trace demo @ [Done (GPIO_add_event_detect 23 BOTH 200)]\<rparr>"

subsection \<open>Platforms and counting\<close>

text \<open>
  A platform in the manner of \<open>RPi.GPIO\<close>: reading a line, or subscribing to its edges,
  raises when the line is not set up; no other call raises, the pixel strip in
  particular never does.
\<close>

fun needs_input_line :: "'cb call \<Rightarrow> bool" where
  "needs_input_line (GPIO_input p) = True"
| "needs_input_line (GPIO_add_event_detect p e b) = True"
| "needs_input_line _ = False"

definition strict :: "'cb platform" where
  "strict h c = (needs_input_line c \<and> \<not> input_live (hw_of h))"

text \<open>A platform on which the button line cannot be set up.\<close>

definition no_input_line :: "'cb platform" where
  "no_input_line h c = (c = GPIO_setup_IN_PUD_UP BUTTON_PIN)"

text \<open>How often a call was issued in a trace, whether it returned or raised.\<close>

fun call_of :: "'cb entry \<Rightarrow> 'cb call" where
  "call_of (Done c) = c"
| "call_of (Failed c) = c"

definition issued :: "'cb call \<Rightarrow> 'cb entry list \<Rightarrow> nat" where
  "issued c h = count_list (map call_of h) c"

section \<open>Properties\<close>

subsection \<open>Traces and library calls\<close>


lemma ext_trace:
  "ext lib c s = (r, s') \<Longrightarrow>
     s' = s\<lparr>trace := trace s @ [if lib (trace s) c then Failed c else Done c]\<rparr> \<and>
     r = (if lib (trace s) c then Inl (Raised c) else Inr ())"
  by (auto simp: ext_def call_def split: if_splits)

lemma ext_quiet: "ext quiet c s = (Inr (), s\<lparr>trace := trace s @ [Done c]\<rparr>)"
  by (simp add: ext_def call_def quiet_def)

lemma invoked_append: "invoked (h @ k) = invoked h @ invoked k"
  by (simp add: invoked_def)

lemma reads_append: "reads (h @ k) = reads h + reads k"
  by (simp add: reads_def)

lemma activations_append: "activations (h @ k) = activations h + activations k"
  by (simp add: activations_def)

lemma hw_of_append: "hw_of (h @ k) = foldl hw_step (hw_of h) k"
  by (simp add: hw_of_def)

lemma run_callbacks_segment:
  "run_callbacks lib cbs s = (r, s') \<Longrightarrow>
     \<exists>seg. s' = s\<lparr>trace := trace s @ seg\<rparr> \<and> prefix (invoked seg) cbs \<and> reads seg = 0 \<and>
       (r = Inr () \<longrightarrow> invoked seg = cbs)"
proof (induction cbs arbitrary: s)
  case Nil
  then have "s' = s\<lparr>trace := trace s @ []\<rparr>" by simp
  then show ?case using Nil by (intro exI[of _ "[]"]) (simp add: invoked_def reads_def)
next
  case (Cons cb cbs)
  obtain r1 s1 where e: "ext lib (Callback cb) s = (r1, s1)" by fastforce
  note t = ext_trace[OF e]
  show ?case
  proof (cases "lib (trace s) (Callback cb)")
    case True
    with t e Cons.prems have "s' = s\<lparr>trace := trace s @ [Failed (Callback cb)]\<rparr>" "r = Inl (Raised (Callback cb))"
      by auto
    then show ?thesis
      by (intro exI[of _ "[Failed (Callback cb)]"]) (simp add: invoked_def reads_def)
  next
    case False
    with t e Cons.prems have rc: "run_callbacks lib cbs s1 = (r, s')" and s1: "s1 = s\<lparr>trace := trace s @ [Done (Callback cb)]\<rparr>"
      by auto
    from Cons.IH[OF rc] obtain seg where
      seg: "s' = s1\<lparr>trace := trace s1 @ seg\<rparr>" "prefix (invoked seg) cbs" "reads seg = 0"
        "r = Inr () \<longrightarrow> invoked seg = cbs" by blast
    show ?thesis
      using seg s1
      by (intro exI[of _ "Done (Callback cb) # seg"]) (simp add: invoked_def reads_def)
  qed
qed

lemma handler_segment:
  assumes "button_event_handler lib channel lvl s = (r, s')"
  shows "\<exists>seg. s' = s\<lparr>trace := trace s @ seg\<rparr> \<and> reads seg = 1 \<and>
           prefix (invoked seg) (if lvl = LOW then press_callbacks s else release_callbacks s) \<and>
           (r = Inr () \<longrightarrow> invoked seg = (if lvl = LOW then press_callbacks s else release_callbacks s))"
proof -
  let ?c = "GPIO_input BUTTON_PIN"
  let ?cbs = "if lvl = LOW then press_callbacks s else release_callbacks s"
  obtain r1 s1 where e: "ext lib ?c s = (r1, s1)" by fastforce
  note t = ext_trace[OF e]
  show ?thesis
  proof (cases "lib (trace s) ?c")
    case True
    with t e assms have "s' = s\<lparr>trace := trace s @ [Failed ?c]\<rparr>" "r = Inl (Raised ?c)"
      by (auto simp: button_event_handler_def get_button_state_def)
    then show ?thesis
      by (intro exI[of _ "[Failed ?c]"]) (simp add: invoked_def reads_def)
  next
    case False
    with t e assms have rc: "run_callbacks lib ?cbs s1 = (r, s')" and s1: "s1 = s\<lparr>trace := trace s @ [Done ?c]\<rparr>"
      by (auto simp: button_event_handler_def get_button_state_def split: if_splits)
    from run_callbacks_segment[OF rc] obtain seg where
      seg: "s' = s1\<lparr>trace := trace s1 @ seg\<rparr>" "prefix (invoked seg) ?cbs" "reads seg = 0"
        "r = Inr () \<longrightarrow> invoked seg = ?cbs" by blast
    show ?thesis
      using seg s1
      by (intro exI[of _ "Done ?c # seg"]) (simp add: invoked_def reads_def)
  qed
qed

subsection \<open>Registration\<close>

lemma init_demo: "init quiet 255 [] = Inr demo"
  by (simp add: init_def call_def quiet_def demo_def LED_COUNT_def LED_PIN_def LED_FREQ_HZ_def
      LED_DMA_def LED_INVERT_def LED_CHANNEL_def BUTTON_PIN_def)

lemma setup_button_events_lists:
  "press_callbacks (snd (setup_button_events lib s)) = press_callbacks s \<and>
   release_callbacks (snd (setup_button_events lib s)) = release_callbacks s"
  by (simp add: setup_button_events_def ext_def call_def)

lemma register_lists:
  "press_callbacks (snd (register lib r s)) = press_callbacks s @ press_of r \<and>
   release_callbacks (snd (register lib r s)) = release_callbacks s @ release_of r"
  by (cases r) (simp_all add: on_button_press_def on_button_release_def setup_button_events_lists)

lemma register_all_lists:
  "press_callbacks (register_all lib regs s) = press_callbacks s @ concat (map press_of regs) \<and>
   release_callbacks (register_all lib regs s) = release_callbacks s @ concat (map release_of regs)"
  by (induction regs arbitrary: s) (simp_all add: register_lists)

lemma register_added:
  "button_event_added s \<Longrightarrow>
     button_event_added (snd (register lib r s)) \<and> trace (snd (register lib r s)) = trace s"
  by (cases r) (simp_all add: on_button_press_def on_button_release_def setup_button_events_def)

lemma register_all_added:
  "button_event_added s \<Longrightarrow>
     button_event_added (register_all lib regs s) \<and> trace (register_all lib regs s) = trace s"
proof (induction regs arbitrary: s)
  case Nil
  then show ?case by simp
next
  case (Cons r regs)
  from register_added[OF Cons.prems, of lib r]
  have a: "button_event_added (snd (register lib r s))" and t: "trace (snd (register lib r s)) = trace s"
    by simp_all
  from Cons.IH[OF a] t show ?case by simp
qed

lemma register_fresh:
  "\<not> button_event_added s \<Longrightarrow>
     trace (snd (register lib r s)) =
       trace s @ [if lib (trace s) (GPIO_add_event_detect BUTTON_PIN BOTH 200)
                  then Failed (GPIO_add_event_detect BUTTON_PIN BOTH 200)
                  else Done (GPIO_add_event_detect BUTTON_PIN BOTH 200)] \<and>
     button_event_added (snd (register lib r s)) =
       (\<not> lib (trace s) (GPIO_add_event_detect BUTTON_PIN BOTH 200))"
  by (cases r) (simp_all add: on_button_press_def on_button_release_def setup_button_events_def ext_def call_def)

lemma register_all_activations:
  "activations (trace s) = (if button_event_added s then 1 else 0) \<Longrightarrow>
   activations (trace (register_all lib regs s)) = (if button_event_added (register_all lib regs s) then 1 else 0)"
proof (induction regs arbitrary: s)
  case Nil
  then show ?case by simp
next
  case (Cons r regs)
  have "activations (trace (snd (register lib r s))) = (if button_event_added (snd (register lib r s)) then 1 else 0)"
  proof (cases "button_event_added s")
    case True
    with register_added[OF True, of lib r] Cons.prems show ?thesis by simp
  next
    case False
    with register_fresh[OF False, of lib r] Cons.prems show ?thesis
      by (simp add: activations_def)
  qed
  from Cons.IH[OF this] show ?case by simp
qed

subsection \<open>The edge subscription\<close>

text \<open>
  C8. On a switch whose subscription flag is unset and whose trace holds no activation,
  any sequence of registrations, of either kind, leaves at most one completed
  \<open>add_event_detect\<close> in the trace. When the sequence is not empty and the call does not
  raise, the first registration activates the subscription and the later ones issue
  no library call at all: the trace grows by exactly that one call.
\<close>

theorem subscription_activated_once:
  assumes fresh: "\<not> button_event_added s" "activations (trace s) = 0"
  shows "activations (trace (register_all lib regs s)) \<le> 1 \<and>
         (\<not> lib (trace s) (GPIO_add_event_detect BUTTON_PIN BOTH 200) \<and> regs \<noteq> [] \<longrightarrow>
            trace (register_all lib regs s) = trace s @ [Done (GPIO_add_event_detect BUTTON_PIN BOTH 200)] \<and>
            activations (trace (register_all lib regs s)) = 1)"
proof -
  from fresh have "activations (trace s) = (if button_event_added s then 1 else 0)" by simp
  from register_all_activations[OF this, of lib regs]
  have le: "activations (trace (register_all lib regs s)) \<le> 1" by (simp split: if_splits)
  have ex: "trace (register_all lib regs s) = trace s @ [Done (GPIO_add_event_detect BUTTON_PIN BOTH 200)] \<and>
            activations (trace (register_all lib regs s)) = 1"
    if ok: "\<not> lib (trace s) (GPIO_add_event_detect BUTTON_PIN BOTH 200)" and ne: "regs \<noteq> []"
  proof -
    from ne obtain r rs where regs: "regs = r # rs" by (cases regs) auto
    from register_fresh[OF fresh(1), of lib r] ok
    have t: "trace (snd (register lib r s)) = trace s @ [Done (GPIO_add_event_detect BUTTON_PIN BOTH 200)]"
      and a: "button_event_added (snd (register lib r s))" by simp_all
    from register_all_added[OF a, of lib rs] t regs
    have "trace (register_all lib regs s) = trace s @ [Done (GPIO_add_event_detect BUTTON_PIN BOTH 200)]"
      by simp
    with fresh(2) show ?thesis by (simp add: activations_def)
  qed
  from le ex show ?thesis by blast
qed

theorem subscription_activated_once_witness:
  "\<not> button_event_added demo \<and> activations (trace demo) = 0 \<and>
   trace (register_all quiet [OnPress 1, OnRelease 2, OnPress 3, OnPress 1] demo) =
     trace demo @ [Done (GPIO_add_event_detect BUTTON_PIN BOTH 200)] \<and>
   activations (trace (register_all quiet [OnPress 1, OnRelease 2, OnPress 3, OnPress 1] demo)) = 1"
proof -
  have f: "\<not> button_event_added demo" "activations (trace demo) = 0"
    by (simp_all add: demo_def activations_def)
  have q: "\<not> quiet (trace demo) (GPIO_add_event_detect BUTTON_PIN BOTH 200)"
    by (simp add: quiet_def)
  have n: "[OnPress 1, OnRelease 2, OnPress 3, OnPress (1::nat)] \<noteq> []" by simp
  from subscription_activated_once[OF f, of quiet "[OnPress 1, OnRelease 2, OnPress 3, OnPress 1]"] q n f
  show ?thesis by blast
qed

subsection \<open>Polling the button\<close>

text \<open>
  C9. Whenever the read of the line returns, \<open>get_button_state\<close> answers \<open>True\<close> exactly
  when the level is \<open>LOW\<close>. The answer is a function of the level alone: the listeners,
  the subscription flag and the trace of the switch do not enter it, and the switch is
  left as it was but for the one read recorded in the trace.
\<close>

theorem get_button_state_active_low:
  assumes "\<not> lib (trace s) (GPIO_input BUTTON_PIN)"
  shows "get_button_state lib lvl s =
           (Inr (lvl = LOW), s\<lparr>trace := trace s @ [Done (GPIO_input BUTTON_PIN)]\<rparr>)"
  using assms by (simp add: get_button_state_def ext_def call_def)

theorem get_button_state_active_low_witness:
  "\<not> quiet (trace demo) (GPIO_input BUTTON_PIN) \<and>
   fst (get_button_state quiet LOW demo) = Inr True \<and>
   fst (get_button_state quiet HIGH demo) = Inr False \<and>
   fst (get_button_state quiet LOW (demo\<lparr>press_callbacks := [7], button_event_added := True\<rparr>)) = Inr True"
proof -
  have q: "\<not> quiet h (GPIO_input BUTTON_PIN)" for h :: "nat entry list"
    by (simp add: quiet_def)
  show ?thesis
    using q[of "trace demo"]
      get_button_state_active_low[of quiet demo LOW, OF q]
      get_button_state_active_low[of quiet demo HIGH, OF q]
      get_button_state_active_low[of quiet "demo\<lparr>press_callbacks := [7], button_event_added := True\<rparr>" LOW, OF q]
    by simp
qed

subsection \<open>The event handler\<close>

lemma quiet_run_callbacks:
  "run_callbacks quiet cbs s = (Inr (), s\<lparr>trace := trace s @ map (\<lambda>cb. Done (Callback cb)) cbs\<rparr>)"
  by (induction cbs arbitrary: s) (simp_all add: ext_quiet)

lemma quiet_handler:
  "button_event_handler quiet channel lvl s =
     (Inr (), s\<lparr>trace := trace s @ Done (GPIO_input BUTTON_PIN) #
        map (\<lambda>cb. Done (Callback cb)) (if lvl = LOW then press_callbacks s else release_callbacks s)\<rparr>)"
  by (simp add: button_event_handler_def get_button_state_def ext_quiet quiet_run_callbacks)

lemma invoked_callbacks: "invoked (map (\<lambda>cb. Done (Callback cb)) cbs) = cbs"
  by (induction cbs) (simp_all add: invoked_def)

lemma register_invoked: "invoked (trace (snd (register lib r s))) = invoked (trace s)"
  by (cases r)
    (simp_all add: on_button_press_def on_button_release_def setup_button_events_def ext_def call_def
      invoked_def)

lemma register_all_invoked: "invoked (trace (register_all lib regs s)) = invoked (trace s)"
  by (induction regs arbitrary: s) (simp_all add: register_invoked)

lemma deliver_all_segment:
  "\<exists>seg. deliver_all lib ns s = s\<lparr>trace := trace s @ seg\<rparr> \<and> reads seg = length ns"
proof (induction ns arbitrary: s)
  case Nil
  have "s = s\<lparr>trace := trace s @ []\<rparr>" by simp
  then show ?case by (intro exI[of _ "[]"]) (simp add: reads_def)
next
  case (Cons n ns)
  obtain r s1 where d: "button_event_handler lib BUTTON_PIN (snd n) s = (r, s1)" by fastforce
  from handler_segment[OF d] obtain seg1 where
    s1: "s1 = s\<lparr>trace := trace s @ seg1\<rparr>" "reads seg1 = 1" by blast
  from Cons.IH[of s1] obtain seg2 where
    s2: "deliver_all lib ns s1 = s1\<lparr>trace := trace s1 @ seg2\<rparr>" "reads seg2 = length ns" by blast
  show ?case
    using d s1 s2
    by (intro exI[of _ "seg1 @ seg2"]) (simp add: deliver_def reads_append)
qed

lemma quiet_deliver_all_invoked:
  "invoked (trace (deliver_all quiet ns s)) =
     invoked (trace s) @
     concat (map (\<lambda>n. if snd n = LOW then press_callbacks s else release_callbacks s) ns)"
proof (induction ns arbitrary: s)
  case Nil
  then show ?case by simp
next
  case (Cons n ns)
  have "invoked (Done (GPIO_input BUTTON_PIN) # map (\<lambda>cb. Done (Callback cb)) cbs) = cbs" for cbs :: "'a list"
    using invoked_callbacks[of cbs] by (simp add: invoked_def)
  then show ?case
    by (simp add: Cons.IH deliver_def quiet_handler invoked_append cong: if_cong)
qed

text \<open>
  C10. One run of \<open>_button_event_handler\<close> reads the line exactly once and then runs
  listeners of one collection only: the press listeners when the level read is \<open>LOW\<close>,
  the release listeners otherwise. The listeners run are a prefix of that collection,
  in order, and the whole of it when the handler returns. The argument \<open>channel\<close>, all
  the library tells the handler about the edge, does not enter the outcome.
\<close>

theorem handler_dispatches_by_level:
  assumes "button_event_handler lib channel lvl s = (r, s')"
  shows "(\<exists>seg. s' = s\<lparr>trace := trace s @ seg\<rparr> \<and> reads seg = 1 \<and>
           prefix (invoked seg) (if lvl = LOW then press_callbacks s else release_callbacks s) \<and>
           (r = Inr () \<longrightarrow>
              invoked seg = (if lvl = LOW then press_callbacks s else release_callbacks s))) \<and>
         button_event_handler lib channel' lvl s = (r, s')"
proof -
  have "button_event_handler lib channel' lvl s = (r, s')"
    using assms by (simp add: button_event_handler_def)
  with handler_segment[OF assms] show ?thesis by blast
qed

theorem handler_dispatches_by_level_witness:
  "button_event_handler quiet 23 LOW (demo\<lparr>press_callbacks := [1, 2], release_callbacks := [3]\<rparr>) =
     (Inr (), demo\<lparr>press_callbacks := [1, 2], release_callbacks := [3],
        trace := trace demo @ [Done (GPIO_input BUTTON_PIN), Done (Callback 1), Done (Callback 2)]\<rparr>) \<and>
   (\<exists>seg. trace demo @ [Done (GPIO_input BUTTON_PIN), Done (Callback 1), Done (Callback 2)] = trace demo @ seg \<and>
      reads seg = 1 \<and> invoked seg = [1, 2])"
proof -
  let ?s = "demo\<lparr>press_callbacks := [1, 2], release_callbacks := [3]\<rparr>"
  let ?s' = "demo\<lparr>press_callbacks := [1, 2], release_callbacks := [3],
        trace := trace demo @ [Done (GPIO_input BUTTON_PIN), Done (Callback 1), Done (Callback 2)]\<rparr>"
  have h: "button_event_handler quiet 23 LOW ?s = (Inr (), ?s')"
    by (simp add: quiet_handler)
  from handler_dispatches_by_level[OF h] obtain seg where
    seg: "?s' = ?s\<lparr>trace := trace ?s @ seg\<rparr>" "reads seg = 1" "invoked seg = [1, 2]"
    by auto
  from seg(1) have "trace ?s' = trace (?s\<lparr>trace := trace ?s @ seg\<rparr>)" by simp
  then have "trace demo @ [Done (GPIO_input BUTTON_PIN), Done (Callback 1), Done (Callback 2)] = trace demo @ seg"
    by simp
  with h seg show ?thesis by blast
qed

text \<open>
  C7. After any sequence of registrations, a run of the handler that returns has run
  the listeners of the kind the level selects exactly as they were registered: those
  already stored, then the newly registered ones in the order of registration, each as
  often as it was registered.
\<close>

theorem listeners_invoked_in_registration_order:
  assumes "button_event_handler lib channel lvl (register_all lib regs s) = (Inr (), s')"
  shows "invoked (trace s') =
           invoked (trace s) @
           (if lvl = LOW then press_callbacks s @ concat (map press_of regs)
            else release_callbacks s @ concat (map release_of regs))"
proof -
  let ?t = "register_all lib regs s"
  from handler_segment[OF assms] obtain seg where
    seg: "s' = ?t\<lparr>trace := trace ?t @ seg\<rparr>"
      "invoked seg = (if lvl = LOW then press_callbacks ?t else release_callbacks ?t)"
    by auto
  from seg(1) have "trace s' = trace ?t @ seg" by simp
  then have "invoked (trace s') = invoked (trace s) @ invoked seg"
    by (simp add: invoked_append register_all_invoked)
  with seg(2) show ?thesis
    by (simp add: register_all_lists)
qed

theorem listeners_invoked_in_registration_order_witness:
  "fst (button_event_handler quiet 23 LOW (register_all quiet [OnPress 1, OnPress 2, OnPress 3] demo)) = Inr () \<and>
   invoked (trace (snd (button_event_handler quiet 23 LOW
      (register_all quiet [OnPress 1, OnPress 2, OnPress 3] demo)))) = [1, 2, 3] \<and>
   invoked (trace (snd (button_event_handler quiet 23 LOW
      (register_all quiet [OnPress 5, OnRelease 6, OnPress 5] demo)))) = [5, 5]"
proof -
  have h: "button_event_handler quiet 23 LOW (register_all quiet regs demo) =
             (Inr (), snd (button_event_handler quiet 23 LOW (register_all quiet regs demo)))"
    for regs :: "nat registration list"
    by (simp add: quiet_handler)
  have d: "invoked (trace demo) = []" "press_callbacks demo = []"
    by (simp_all add: demo_def invoked_def)
  have f: "fst (button_event_handler quiet 23 LOW (register_all quiet [OnPress 1, OnPress 2, OnPress 3] demo)) = Inr ()"
    by (simp add: quiet_handler)
  show ?thesis
    using f
      listeners_invoked_in_registration_order[OF h, of "[OnPress 1, OnPress 2, OnPress 3]"]
      listeners_invoked_in_registration_order[OF h, of "[OnPress 5, OnRelease 6, OnPress 5]"]
    by (simp add: d del: register_all.simps)
qed

text \<open>
  C1, as amended. The class keeps no recorded button state and no time of the last
  event: a delivery changes nothing but the trace, and its outcome does not depend on
  the time of the notification. Every notification delivered to the handler is read
  once, none is discarded, and on a platform where no call raises it runs the press
  listeners when the level is \<open>LOW\<close> and the release listeners when it is \<open>HIGH\<close>,
  repeats of the same level included. What the class does about bounce is to subscribe
  with a bounce time of 200 ms, leaving the filtering to the GPIO library.
\<close>

theorem every_notification_dispatches:
  "invoked (trace (deliver_all quiet ns s)) =
     invoked (trace s) @
     concat (map (\<lambda>n. if snd n = LOW then press_callbacks s else release_callbacks s) ns) \<and>
   reads (trace (deliver_all lib ns s)) = reads (trace s) + length ns \<and>
   deliver_all lib ns s = s\<lparr>trace := trace (deliver_all lib ns s)\<rparr> \<and>
   deliver_all lib (map (\<lambda>n. (t, snd n)) ns) s = deliver_all lib ns s \<and>
   setup_button_events quiet (s\<lparr>button_event_added := False\<rparr>) =
     (Inr (), s\<lparr>button_event_added := True,
                 trace := trace s @ [Done (GPIO_add_event_detect BUTTON_PIN BOTH 200)]\<rparr>)"
proof -
  from deliver_all_segment[of lib ns s] obtain seg where
    seg: "deliver_all lib ns s = s\<lparr>trace := trace s @ seg\<rparr>" "reads seg = length ns" by blast
  have r: "reads (trace (deliver_all lib ns s)) = reads (trace s) + length ns"
    using seg by (simp add: reads_append)
  have a: "deliver_all lib ns s = s\<lparr>trace := trace (deliver_all lib ns s)\<rparr>"
    using seg(1) by simp
  have t: "deliver_all lib (map (\<lambda>n. (t, snd n)) ns) s = deliver_all lib ns s"
    by (induction ns arbitrary: s) (simp_all add: deliver_def)
  have e: "setup_button_events quiet (s\<lparr>button_event_added := False\<rparr>) =
     (Inr (), s\<lparr>button_event_added := True,
                 trace := trace s @ [Done (GPIO_add_event_detect BUTTON_PIN BOTH 200)]\<rparr>)"
    by (simp add: setup_button_events_def ext_quiet)
  from quiet_deliver_all_invoked[of ns s] r a t e show ?thesis by blast
qed

theorem every_notification_dispatches_witness:
  "invoked (trace (deliver_all quiet [(0, HIGH), (300, LOW), (600, HIGH)]
      (demo\<lparr>press_callbacks := [4], release_callbacks := [5, 6]\<rparr>))) = [5, 6, 4, 5, 6] \<and>
   reads (trace (deliver_all quiet [(0, HIGH), (300, LOW), (600, HIGH)]
      (demo\<lparr>press_callbacks := [4], release_callbacks := [5, 6]\<rparr>))) = 3"
  using every_notification_dispatches[of "[(0, HIGH), (300, LOW), (600, HIGH)]"
      "demo\<lparr>press_callbacks := [4], release_callbacks := [5, 6]\<rparr>" quiet 0]
  by (simp add: demo_def invoked_def reads_def del: deliver_all.simps)

text \<open>
  C1, as stated, fails on the handler. One press listener \<open>1\<close> and one release listener
  \<open>2\<close> are registered. Four notifications with the levels \<open>LOW\<close>, \<open>LOW\<close>, \<open>HIGH\<close>,
  \<open>LOW\<close> inside 30 ms give three press dispatches and one release dispatch, not one
  press dispatch; and two notifications 250 ms apart that both read \<open>LOW\<close> give two
  press dispatches, although the second sample equals the state of the first.
\<close>

theorem handler_has_no_debounce_counterexample:
  "invoked (trace (deliver_all quiet [(0, LOW), (10, LOW), (20, HIGH), (30, LOW)]
      (register_all quiet [OnPress (1::nat), OnRelease 2] demo))) = [1, 1, 2, 1] \<and>
   invoked (trace (deliver_all quiet [(0, LOW), (250, LOW)]
      (register_all quiet [OnPress (1::nat), OnRelease 2] demo))) = [1, 1]"
  by (simp add: quiet_deliver_all_invoked register_all_invoked register_all_lists
      del: deliver_all.simps register_all.simps)
    (simp add: demo_def invoked_def)

subsection \<open>The LED and the teardown\<close>

lemma set_color_returns:
  assumes "\<not> lib (trace s) (Strip_setPixelColor 0 (Color r g b))"
    and "\<not> lib (trace s @ [Done (Strip_setPixelColor 0 (Color r g b))]) Strip_show"
  shows "set_color lib r g b s =
           (Inr (), s\<lparr>trace := trace s @ [Done (Strip_setPixelColor 0 (Color r g b)), Done Strip_show]\<rparr>)"
  using assms by (simp add: set_color_def Let_def ext_def call_def)

lemma set_color_raises:
  assumes "lib (trace s) (Strip_setPixelColor 0 (Color r g b))"
  shows "set_color lib r g b s =
           (Inl (Raised (Strip_setPixelColor 0 (Color r g b))),
            s\<lparr>trace := trace s @ [Failed (Strip_setPixelColor 0 (Color r g b))]\<rparr>)"
  using assms by (simp add: set_color_def Let_def ext_def call_def)

lemma set_color_Inr:
  assumes "set_color lib r g b s = (Inr (), s')"
  shows "s' = s\<lparr>trace := trace s @ [Done (Strip_setPixelColor 0 (Color r g b)), Done Strip_show]\<rparr>"
  using assms by (auto simp: set_color_def Let_def ext_def call_def split: if_splits)

lemma set_brightness_returns:
  assumes "\<not> lib (trace s) (Strip_setBrightness v)"
    and "\<not> lib (trace s @ [Done (Strip_setBrightness v)]) Strip_show"
  shows "set_brightness lib v s =
           (Inr (), s\<lparr>trace := trace s @ [Done (Strip_setBrightness v), Done Strip_show]\<rparr>)"
  using assms by (simp add: set_brightness_def ext_def call_def)

lemma set_brightness_raises:
  assumes "lib (trace s) (Strip_setBrightness v)"
  shows "set_brightness lib v s =
           (Inl (Raised (Strip_setBrightness v)), s\<lparr>trace := trace s @ [Failed (Strip_setBrightness v)]\<rparr>)"
  using assms by (simp add: set_brightness_def ext_def call_def)

lemma led_after_show:
  "led (hw_of (h @ [Done (Strip_setPixelColor 0 c), Done Strip_show])) = Some c"
  by (simp add: hw_of_def)

lemma hw_of_Failed: "hw_of (h @ [Failed c]) = hw_of h"
  by (simp add: hw_of_def)

lemma cleanup_Inr:
  assumes "cleanup lib s = (Inr (), s')"
  shows "s' = s\<lparr>trace := trace s @ [Done (Strip_setPixelColor 0 (Color 0 0 0)), Done Strip_show, Done GPIO_cleanup]\<rparr>"
  using assms
  by (auto simp: cleanup_def turn_off_def set_color_def Let_def ext_def call_def split: if_splits)

lemma hw_after_cleanup:
  "hw_of (h @ [Done (Strip_setPixelColor 0 (Color 0 0 0)), Done Strip_show, Done GPIO_cleanup]) =
     (hw_of h)\<lparr>staged := Some (Color 0 0 0), led := Some (Color 0 0 0), input_live := False\<rparr>"
  by (simp add: hw_of_def)

lemma cleanup_segment:
  assumes "cleanup lib s = (r, s')"
  shows "\<exists>seg. s' = s\<lparr>trace := trace s @ seg\<rparr> \<and>
           issued (Strip_setPixelColor 0 (Color 0 0 0)) seg = 1 \<and>
           issued GPIO_cleanup seg \<le> 1 \<and>
           (fst (turn_off lib s) = Inr () \<longrightarrow> issued GPIO_cleanup seg = 1)"
proof -
  let ?p = "Strip_setPixelColor 0 (Color 0 0 0) :: 'a call"
  consider
    (a) "lib (trace s) ?p"
    | (b) "\<not> lib (trace s) ?p" "lib (trace s @ [Done ?p]) Strip_show"
    | (c) "\<not> lib (trace s) ?p" "\<not> lib (trace s @ [Done ?p]) Strip_show"
          "lib (trace s @ [Done ?p, Done Strip_show]) GPIO_cleanup"
    | (d) "\<not> lib (trace s) ?p" "\<not> lib (trace s @ [Done ?p]) Strip_show"
          "\<not> lib (trace s @ [Done ?p, Done Strip_show]) GPIO_cleanup"
    by blast
  then show ?thesis
  proof cases
    case a
    with assms show ?thesis
      by (intro exI[of _ "[Failed ?p]"])
        (auto simp: cleanup_def turn_off_def set_color_def Let_def ext_def call_def issued_def)
  next
    case b
    with assms show ?thesis
      by (intro exI[of _ "[Done ?p, Failed Strip_show]"])
        (auto simp: cleanup_def turn_off_def set_color_def Let_def ext_def call_def issued_def)
  next
    case c
    with assms show ?thesis
      by (intro exI[of _ "[Done ?p, Done Strip_show, Failed GPIO_cleanup]"])
        (auto simp: cleanup_def turn_off_def set_color_def Let_def ext_def call_def issued_def)
  next
    case d
    with assms show ?thesis
      by (intro exI[of _ "[Done ?p, Done Strip_show, Done GPIO_cleanup]"])
        (auto simp: cleanup_def turn_off_def set_color_def Let_def ext_def call_def issued_def)
  qed
qed

lemma quiet_set_color:
  "set_color quiet r g b s =
     (Inr (), s\<lparr>trace := trace s @ [Done (Strip_setPixelColor 0 (Color r g b)), Done Strip_show]\<rparr>)"
  by (simp add: set_color_returns quiet_def)

lemma quiet_cleanup:
  "cleanup quiet s =
     (Inr (), s\<lparr>trace := trace s @ [Done (Strip_setPixelColor 0 (Color 0 0 0)), Done Strip_show, Done GPIO_cleanup]\<rparr>)"
  by (simp add: cleanup_def turn_off_def quiet_set_color ext_quiet)

lemma strict_pixel: "\<not> strict h (Strip_setPixelColor i c)" "\<not> strict h Strip_show"
  "\<not> strict h (Strip_setBrightness v)" "\<not> strict h GPIO_cleanup"
  by (simp_all add: strict_def)

lemma strict_cleanup:
  "cleanup strict s =
     (Inr (), s\<lparr>trace := trace s @ [Done (Strip_setPixelColor 0 (Color 0 0 0)), Done Strip_show, Done GPIO_cleanup]\<rparr>)"
  by (simp add: cleanup_def turn_off_def set_color_returns strict_pixel ext_def call_def)

lemma subscribed_eq: "on_button_press strict 1 demo = (Inr (), subscribed)"
  by (simp add: on_button_press_def setup_button_events_def ext_def call_def strict_def
      subscribed_def demo_def hw_of_def hardware0_def BUTTON_PIN_def)

subsection \<open>Scoped use\<close>

text \<open>
  C4. Whichever way the body of \<open>with switch:\<close> ends, normally, by a \<open>return\<close> or by
  an exception, the state after the statement is the one a single \<open>cleanup()\<close> makes of
  the state the body left. The calls issued after the body are those of exactly one
  \<open>cleanup()\<close>: the switch-off write is issued once, and \<open>GPIO.cleanup\<close> once when the
  switch-off returned, never twice. When \<open>cleanup()\<close> returns, the way the body ended is
  the way the statement ends: a return value is returned, an exception propagates.
\<close>

theorem with_switch_releases_once:
  assumes "body s = (c, s1)"
  shows "snd (with_switch lib body s) = snd (cleanup lib s1) \<and>
         (\<exists>seg. trace (snd (with_switch lib body s)) = trace s1 @ seg \<and>
            issued (Strip_setPixelColor 0 (Color 0 0 0)) seg = 1 \<and>
            issued GPIO_cleanup seg \<le> 1 \<and>
            (fst (turn_off lib s1) = Inr () \<longrightarrow> issued GPIO_cleanup seg = 1)) \<and>
         (fst (cleanup lib s1) = Inr () \<longrightarrow> fst (with_switch lib body s) = c)"
proof -
  obtain r s2 where cl: "cleanup lib s1 = (r, s2)" by fastforce
  have w: "snd (with_switch lib body s) = s2"
    using assms cl
    by (cases r; cases c) (simp_all add: with_switch_def enter_def exit_switch_def)
  have f: "fst (with_switch lib body s) = c" if "r = Inr ()"
    using assms cl that
    by (cases c) (simp_all add: with_switch_def enter_def exit_switch_def)
  from cleanup_segment[OF cl] obtain seg where
    seg: "s2 = s1\<lparr>trace := trace s1 @ seg\<rparr>"
      "issued (Strip_setPixelColor 0 (Color 0 0 0)) seg = 1"
      "issued GPIO_cleanup seg \<le> 1"
      "fst (turn_off lib s1) = Inr () \<longrightarrow> issued GPIO_cleanup seg = 1" by blast
  from seg(1) have "trace s2 = trace s1 @ seg" by simp
  with w cl f seg(2-4) show ?thesis by auto
qed

theorem with_switch_releases_once_witness:
  "fst (with_switch quiet (\<lambda>s. (Normal :: (nat, nat) completion, snd (turn_on quiet 255 255 255 s))) demo) = Normal \<and>
   trace (snd (with_switch quiet (\<lambda>s. (Normal :: (nat, nat) completion, snd (turn_on quiet 255 255 255 s))) demo)) =
     trace demo @ [Done (Strip_setPixelColor 0 (Color 255 255 255)), Done Strip_show,
                   Done (Strip_setPixelColor 0 (Color 0 0 0)), Done Strip_show, Done GPIO_cleanup] \<and>
   fst (with_switch quiet (\<lambda>s. (Return (7::nat), s)) demo) = Return 7 \<and>
   trace (snd (with_switch quiet (\<lambda>s. (Return (7::nat), s)) demo)) =
     trace demo @ [Done (Strip_setPixelColor 0 (Color 0 0 0)), Done Strip_show, Done GPIO_cleanup] \<and>
   fst (with_switch quiet (\<lambda>s. (Raise (Raised (Callback 9)) :: (nat, nat) completion, s)) demo) =
     Raise (Raised (Callback 9)) \<and>
   trace (snd (with_switch quiet (\<lambda>s. (Raise (Raised (Callback 9)) :: (nat, nat) completion, s)) demo)) =
     trace demo @ [Done (Strip_setPixelColor 0 (Color 0 0 0)), Done Strip_show, Done GPIO_cleanup]"
proof -
  let ?n = "\<lambda>s. (Normal :: (nat, nat) completion, snd (turn_on quiet 255 255 255 s))"
  let ?r = "\<lambda>s::nat switch. (Return (7::nat), s)"
  let ?e = "\<lambda>s::nat switch. (Raise (Raised (Callback 9)) :: (nat, nat) completion, s)"
  show ?thesis
    using with_switch_releases_once[of ?n demo Normal "snd (turn_on quiet 255 255 255 demo)" quiet]
      with_switch_releases_once[of ?r demo "Return 7" demo quiet]
      with_switch_releases_once[of ?e demo "Raise (Raised (Callback 9))" demo quiet]
    by (simp add: quiet_cleanup turn_on_def quiet_set_color)
qed

subsection \<open>Teardown\<close>

text \<open>
  C5, as amended. A \<open>cleanup()\<close> that returns has issued three calls in this order:
  colour (0,0,0) for pixel 0, \<open>show\<close>, \<open>GPIO.cleanup\<close>. Afterwards the LED is off and the
  input line is given back; the pixel output is as it was, it is not released, and no
  attribute of the object has changed. A second \<open>cleanup()\<close> that returns is neither an
  error nor a no-op: it issues the same three calls again and leaves the LED off.
\<close>

theorem cleanup_turns_off_and_releases_input:
  assumes "cleanup lib s = (Inr (), s')"
  shows "s' = s\<lparr>trace := trace s @ [Done (Strip_setPixelColor 0 (Color 0 0 0)), Done Strip_show, Done GPIO_cleanup]\<rparr> \<and>
         led (hw_of (trace s')) = Some (Color 0 0 0) \<and>
         \<not> input_live (hw_of (trace s')) \<and>
         pixel_live (hw_of (trace s')) = pixel_live (hw_of (trace s)) \<and>
         (\<forall>s''. cleanup lib s' = (Inr (), s'') \<longrightarrow>
            s'' = s'\<lparr>trace := trace s' @ [Done (Strip_setPixelColor 0 (Color 0 0 0)), Done Strip_show, Done GPIO_cleanup]\<rparr> \<and>
            led (hw_of (trace s'')) = Some (Color 0 0 0) \<and>
            \<not> input_live (hw_of (trace s'')) \<and>
            pixel_live (hw_of (trace s'')) = pixel_live (hw_of (trace s)))"
proof -
  note a = cleanup_Inr[OF assms]
  have b: "led (hw_of (trace s')) = Some (Color 0 0 0) \<and> \<not> input_live (hw_of (trace s')) \<and>
           pixel_live (hw_of (trace s')) = pixel_live (hw_of (trace s))"
    using a by (simp add: hw_after_cleanup)
  have c: "s'' = s'\<lparr>trace := trace s' @ [Done (Strip_setPixelColor 0 (Color 0 0 0)), Done Strip_show, Done GPIO_cleanup]\<rparr> \<and>
            led (hw_of (trace s'')) = Some (Color 0 0 0) \<and>
            \<not> input_live (hw_of (trace s'')) \<and>
            pixel_live (hw_of (trace s'')) = pixel_live (hw_of (trace s))"
    if "cleanup lib s' = (Inr (), s'')" for s''
    using cleanup_Inr[OF that] b by (simp add: hw_after_cleanup)
  from a b c show ?thesis by blast
qed

theorem cleanup_turns_off_and_releases_input_witness:
  "cleanup quiet demo =
     (Inr (), demo\<lparr>trace := trace demo @ [Done (Strip_setPixelColor 0 (Color 0 0 0)), Done Strip_show, Done GPIO_cleanup]\<rparr>) \<and>
   led (hw_of (trace demo @ [Done (Strip_setPixelColor 0 (Color 0 0 0)), Done Strip_show, Done GPIO_cleanup])) =
     Some (Color 0 0 0) \<and>
   fst (cleanup quiet (snd (cleanup quiet demo))) = Inr () \<and>
   led (hw_of (trace (snd (cleanup quiet (snd (cleanup quiet demo)))))) = Some (Color 0 0 0)"
proof -
  let ?s1 = "demo\<lparr>trace := trace demo @ [Done (Strip_setPixelColor 0 (Color 0 0 0)), Done Strip_show, Done GPIO_cleanup]\<rparr>"
  have c: "cleanup quiet demo = (Inr (), ?s1)"
    by (simp add: quiet_cleanup)
  have d: "cleanup quiet ?s1 = (Inr (), snd (cleanup quiet ?s1))"
    by (simp add: quiet_cleanup)
  from cleanup_turns_off_and_releases_input[OF c] d
  have "led (hw_of (trace ?s1)) = Some (Color 0 0 0)"
    and "led (hw_of (trace (snd (cleanup quiet ?s1)))) = Some (Color 0 0 0)"
    by blast+
  moreover have "fst (cleanup quiet ?s1) = Inr ()"
    by (simp add: quiet_cleanup)
  ultimately show ?thesis using c by simp
qed

text \<open>
  C5, as stated, fails: after \<open>cleanup()\<close> on a constructed switch the pixel output is
  still acquired, only the input line is released; and the second \<open>cleanup()\<close> repeats
  the three library calls.
\<close>

theorem cleanup_keeps_pixel_strip_counterexample:
  "fst (cleanup quiet demo) = Inr () \<and>
   pixel_live (hw_of (trace (snd (cleanup quiet demo)))) = True \<and>
   input_live (hw_of (trace (snd (cleanup quiet demo)))) = False \<and>
   cleanup quiet (snd (cleanup quiet demo)) =
     (Inr (), demo\<lparr>trace := trace demo @
        [Done (Strip_setPixelColor 0 (Color 0 0 0)), Done Strip_show, Done GPIO_cleanup,
         Done (Strip_setPixelColor 0 (Color 0 0 0)), Done Strip_show, Done GPIO_cleanup]\<rparr>)"
  by (simp add: quiet_cleanup hw_after_cleanup) (simp add: demo_def hw_of_def hardware0_def)

subsection \<open>Colour and brightness values\<close>

text \<open>
  C6, as amended. \<open>set_color\<close> and \<open>set_brightness\<close> check no range. For all integers,
  inside \<open>[0,255]\<close> or not, the arguments go unchanged to the pixel library; when its two
  calls return, the method returns and the colour is the one the LED shows. The only
  failure is an exception of the library: when the first call raises, \<open>show\<close> is not
  issued, the hardware is as before and the caller gets that exception.
\<close>

theorem values_are_forwarded_unchecked:
  "(\<not> lib (trace s) (Strip_setPixelColor 0 (Color r g b)) \<and>
    \<not> lib (trace s @ [Done (Strip_setPixelColor 0 (Color r g b))]) Strip_show \<longrightarrow>
      set_color lib r g b s =
        (Inr (), s\<lparr>trace := trace s @ [Done (Strip_setPixelColor 0 (Color r g b)), Done Strip_show]\<rparr>) \<and>
      led (hw_of (trace s @ [Done (Strip_setPixelColor 0 (Color r g b)), Done Strip_show])) = Some (Color r g b)) \<and>
   (lib (trace s) (Strip_setPixelColor 0 (Color r g b)) \<longrightarrow>
      set_color lib r g b s =
        (Inl (Raised (Strip_setPixelColor 0 (Color r g b))),
         s\<lparr>trace := trace s @ [Failed (Strip_setPixelColor 0 (Color r g b))]\<rparr>) \<and>
      hw_of (trace s @ [Failed (Strip_setPixelColor 0 (Color r g b))]) = hw_of (trace s)) \<and>
   (\<not> lib (trace s) (Strip_setBrightness v) \<and>
    \<not> lib (trace s @ [Done (Strip_setBrightness v)]) Strip_show \<longrightarrow>
      set_brightness lib v s =
        (Inr (), s\<lparr>trace := trace s @ [Done (Strip_setBrightness v), Done Strip_show]\<rparr>)) \<and>
   (lib (trace s) (Strip_setBrightness v) \<longrightarrow>
      set_brightness lib v s =
        (Inl (Raised (Strip_setBrightness v)), s\<lparr>trace := trace s @ [Failed (Strip_setBrightness v)]\<rparr>))"
  using set_color_returns[of lib s r g b] set_color_raises[of lib s r g b]
    set_brightness_returns[of lib s v] set_brightness_raises[of lib s v]
    led_after_show[of "trace s" "Color r g b"]
    hw_of_Failed[of "trace s" "Strip_setPixelColor 0 (Color r g b)"]
  by blast

theorem values_are_forwarded_unchecked_witness:
  "set_color quiet 999 (- 5) 256 demo =
     (Inr (), demo\<lparr>trace := trace demo @ [Done (Strip_setPixelColor 0 (Color 999 (- 5) 256)), Done Strip_show]\<rparr>) \<and>
   set_color quiet 0 128 255 demo =
     (Inr (), demo\<lparr>trace := trace demo @ [Done (Strip_setPixelColor 0 (Color 0 128 255)), Done Strip_show]\<rparr>) \<and>
   set_brightness quiet 1000 demo =
     (Inr (), demo\<lparr>trace := trace demo @ [Done (Strip_setBrightness 1000), Done Strip_show]\<rparr>) \<and>
   set_color (\<lambda>h c. True) 0 128 255 demo =
     (Inl (Raised (Strip_setPixelColor 0 (Color 0 128 255))),
      demo\<lparr>trace := trace demo @ [Failed (Strip_setPixelColor 0 (Color 0 128 255))]\<rparr>) \<and>
   set_brightness (\<lambda>h c. True) 1000 demo =
     (Inl (Raised (Strip_setBrightness 1000)), demo\<lparr>trace := trace demo @ [Failed (Strip_setBrightness 1000)]\<rparr>)"
  using values_are_forwarded_unchecked[of quiet demo 999 "- 5" 256 1000]
    values_are_forwarded_unchecked[of quiet demo 0 128 255 1000]
    values_are_forwarded_unchecked[of "\<lambda>h c. True" demo 0 128 255 1000]
  by (simp add: quiet_def)

text \<open>
  C6, as stated, fails: with the colour (10,20,30) committed, \<open>set_color(256, 0, 300)\<close>
  returns normally on a platform that accepts the calls, and the LED shows the new,
  out-of-range colour.
\<close>

theorem out_of_range_colour_is_written_counterexample:
  "led (hw_of (trace (snd (set_color quiet 10 20 30 demo)))) = Some (Color 10 20 30) \<and>
   fst (set_color quiet 256 0 300 (snd (set_color quiet 10 20 30 demo))) = Inr () \<and>
   led (hw_of (trace (snd (set_color quiet 256 0 300 (snd (set_color quiet 10 20 30 demo)))))) =
     Some (Color 256 0 300)"
  by (simp add: quiet_set_color hw_of_def)

subsection \<open>Operations after teardown\<close>

text \<open>
  C2, as amended. \<open>cleanup()\<close>, whether it returns or raises, changes no attribute of
  the object: there is no released flag. Afterwards a registration on an object whose
  subscription is active appends the listener and returns without any library call;
  \<open>set_color\<close> and \<open>set_brightness\<close> return, and write, whenever the pixel library
  accepts their two calls; \<open>get_button_state\<close> returns the level whenever \<open>GPIO.input\<close>
  returns. An operation fails after \<open>cleanup()\<close> only when a library call raises.
\<close>

theorem cleanup_disables_nothing:
  assumes "cleanup lib s = (r, s')"
  shows "s' = s\<lparr>trace := trace s'\<rparr> \<and>
         (button_event_added s \<longrightarrow>
            on_button_press lib cb s' = (Inr (), s'\<lparr>press_callbacks := press_callbacks s @ [cb]\<rparr>) \<and>
            on_button_release lib cb s' = (Inr (), s'\<lparr>release_callbacks := release_callbacks s @ [cb]\<rparr>)) \<and>
         (\<not> lib (trace s') (Strip_setPixelColor 0 (Color red green blue)) \<and>
          \<not> lib (trace s' @ [Done (Strip_setPixelColor 0 (Color red green blue))]) Strip_show \<longrightarrow>
            set_color lib red green blue s' =
              (Inr (), s'\<lparr>trace := trace s' @ [Done (Strip_setPixelColor 0 (Color red green blue)), Done Strip_show]\<rparr>) \<and>
            led (hw_of (trace s' @ [Done (Strip_setPixelColor 0 (Color red green blue)), Done Strip_show])) =
              Some (Color red green blue)) \<and>
         (\<not> lib (trace s') (Strip_setBrightness v) \<and>
          \<not> lib (trace s' @ [Done (Strip_setBrightness v)]) Strip_show \<longrightarrow>
            set_brightness lib v s' =
              (Inr (), s'\<lparr>trace := trace s' @ [Done (Strip_setBrightness v), Done Strip_show]\<rparr>)) \<and>
         (\<not> lib (trace s') (GPIO_input BUTTON_PIN) \<longrightarrow>
            get_button_state lib lvl s' =
              (Inr (lvl = LOW), s'\<lparr>trace := trace s' @ [Done (GPIO_input BUTTON_PIN)]\<rparr>))"
proof -
  from cleanup_segment[OF assms] obtain seg where seg: "s' = s\<lparr>trace := trace s @ seg\<rparr>" by blast
  then have a: "s' = s\<lparr>trace := trace s'\<rparr>" by simp
  have b: "on_button_press lib cb s' = (Inr (), s'\<lparr>press_callbacks := press_callbacks s @ [cb]\<rparr>) \<and>
           on_button_release lib cb s' = (Inr (), s'\<lparr>release_callbacks := release_callbacks s @ [cb]\<rparr>)"
    if "button_event_added s"
    using that seg by (simp add: on_button_press_def on_button_release_def setup_button_events_def)
  have g: "get_button_state lib lvl s' =
             (Inr (lvl = LOW), s'\<lparr>trace := trace s' @ [Done (GPIO_input BUTTON_PIN)]\<rparr>)"
    if "\<not> lib (trace s') (GPIO_input BUTTON_PIN)"
    using that by (simp add: get_button_state_def ext_def call_def)
  from a b g set_color_returns[of lib s' red green blue] set_brightness_returns[of lib s' v]
    led_after_show[of "trace s'" "Color red green blue"]
  show ?thesis by blast
qed

theorem cleanup_disables_nothing_witness:
  "cleanup strict subscribed =
     (Inr (), subscribed\<lparr>trace := trace subscribed @
        [Done (Strip_setPixelColor 0 (Color 0 0 0)), Done Strip_show, Done GPIO_cleanup]\<rparr>) \<and>
   fst (on_button_press strict 2 (snd (cleanup strict subscribed))) = Inr () \<and>
   press_callbacks (snd (on_button_press strict 2 (snd (cleanup strict subscribed)))) = [1, 2] \<and>
   fst (set_color strict 0 0 255 (snd (cleanup strict subscribed))) = Inr () \<and>
   fst (set_brightness strict 128 (snd (cleanup strict subscribed))) = Inr () \<and>
   fst (get_button_state quiet HIGH (snd (cleanup quiet subscribed))) = Inr False"
proof -
  have c: "cleanup strict subscribed = (Inr (), snd (cleanup strict subscribed))"
    by (simp add: strict_cleanup)
  have q: "cleanup quiet subscribed = (Inr (), snd (cleanup quiet subscribed))"
    by (simp add: quiet_cleanup)
  have a: "button_event_added subscribed" "press_callbacks subscribed = [1]"
    by (simp_all add: subscribed_def)
  show ?thesis
    using cleanup_disables_nothing[OF c, of 2 0 0 255 128 HIGH]
      cleanup_disables_nothing[OF q, of 2 0 0 255 128 HIGH] a
    by (simp add: strict_cleanup strict_pixel quiet_def)
qed

text \<open>
  C2, as stated, fails, even on a platform that refuses to read a line that has been
  cleaned up: after \<open>cleanup()\<close>, \<open>set_color(255, 0, 0)\<close> returns and lights the LED,
  and \<open>on_button_release\<close> returns and stores the listener. Only \<open>get_button_state\<close>
  fails there, with the exception of \<open>GPIO.input\<close>.
\<close>

theorem operations_after_cleanup_counterexample:
  "fst (cleanup strict subscribed) = Inr () \<and>
   fst (set_color strict 255 0 0 (snd (cleanup strict subscribed))) = Inr () \<and>
   led (hw_of (trace (snd (set_color strict 255 0 0 (snd (cleanup strict subscribed)))))) =
     Some (Color 255 0 0) \<and>
   fst (on_button_release strict 2 (snd (cleanup strict subscribed))) = Inr () \<and>
   release_callbacks (snd (on_button_release strict 2 (snd (cleanup strict subscribed)))) = [2] \<and>
   fst (get_button_state strict LOW (snd (cleanup strict subscribed))) = Inl (Raised (GPIO_input 23))"
  by (simp add: strict_cleanup set_color_returns strict_pixel led_after_show on_button_release_def
      setup_button_events_def get_button_state_def ext_def call_def)
    (simp add: subscribed_def demo_def strict_def hw_of_def hardware0_def BUTTON_PIN_def)

subsection \<open>Construction\<close>

text \<open>
  C3, as amended. \<open>__init__\<close> issues four calls in order: \<open>PixelStrip(...)\<close>,
  \<open>begin\<close>, \<open>GPIO.setmode\<close>, \<open>GPIO.setup\<close>. The first that raises ends the
  construction with its exception: there is no object, and no further call is issued,
  no release either. What was acquired before stays acquired: the pixel output is live
  at the error exactly when it was live before or the failure came after \<open>begin\<close>; the
  input line is as before. When no call raises, the object has both resources, empty
  listener lists and the subscription flag unset.
\<close>

theorem init_all_or_error:
  "(case init lib b h0 of
      Inl (e, h) \<Rightarrow>
        ((e = Raised (PixelStrip LED_COUNT LED_PIN LED_FREQ_HZ LED_DMA LED_INVERT b LED_CHANNEL) \<and>
          h = h0 @ [Failed (PixelStrip LED_COUNT LED_PIN LED_FREQ_HZ LED_DMA LED_INVERT b LED_CHANNEL)]) \<or>
         (e = Raised Strip_begin \<and>
          h = h0 @ [Done (PixelStrip LED_COUNT LED_PIN LED_FREQ_HZ LED_DMA LED_INVERT b LED_CHANNEL),
                    Failed Strip_begin]) \<or>
         (e = Raised GPIO_setmode_BCM \<and>
          h = h0 @ [Done (PixelStrip LED_COUNT LED_PIN LED_FREQ_HZ LED_DMA LED_INVERT b LED_CHANNEL),
                    Done Strip_begin, Failed GPIO_setmode_BCM]) \<or>
         (e = Raised (GPIO_setup_IN_PUD_UP BUTTON_PIN) \<and>
          h = h0 @ [Done (PixelStrip LED_COUNT LED_PIN LED_FREQ_HZ LED_DMA LED_INVERT b LED_CHANNEL),
                    Done Strip_begin, Done GPIO_setmode_BCM, Failed (GPIO_setup_IN_PUD_UP BUTTON_PIN)])) \<and>
        pixel_live (hw_of h) =
          (pixel_live (hw_of h0) \<or> e = Raised GPIO_setmode_BCM \<or> e = Raised (GPIO_setup_IN_PUD_UP BUTTON_PIN)) \<and>
        input_live (hw_of h) = input_live (hw_of h0)
    | Inr s \<Rightarrow>
        s = \<lparr>LED_BRIGHTNESS = b, press_callbacks = [], release_callbacks = [], button_event_added = False,
             trace = h0 @ [Done (PixelStrip LED_COUNT LED_PIN LED_FREQ_HZ LED_DMA LED_INVERT b LED_CHANNEL),
                           Done Strip_begin, Done GPIO_setmode_BCM, Done (GPIO_setup_IN_PUD_UP BUTTON_PIN)]\<rparr> \<and>
        pixel_live (hw_of (trace s)) \<and> input_live (hw_of (trace s)))"
  by (simp add: init_def call_def hw_of_def)

theorem init_all_or_error_witness:
  "init no_input_line 255 [] =
     Inl (Raised (GPIO_setup_IN_PUD_UP BUTTON_PIN),
          [Done (PixelStrip LED_COUNT LED_PIN LED_FREQ_HZ LED_DMA LED_INVERT 255 LED_CHANNEL),
           Done Strip_begin, Done GPIO_setmode_BCM, Failed (GPIO_setup_IN_PUD_UP BUTTON_PIN)]) \<and>
   init quiet 255 [] = Inr demo"
proof -
  have n: "init no_input_line 255 [] =
     Inl (Raised (GPIO_setup_IN_PUD_UP BUTTON_PIN),
          [Done (PixelStrip LED_COUNT LED_PIN LED_FREQ_HZ LED_DMA LED_INVERT 255 LED_CHANNEL),
           Done Strip_begin, Done GPIO_setmode_BCM, Failed (GPIO_setup_IN_PUD_UP BUTTON_PIN)])"
    using init_all_or_error[where lib = no_input_line and b = 255 and ?h0.0 = "[]"]
    by (simp add: init_def call_def no_input_line_def)
  have q: "init quiet 255 [] = Inr (demo :: nat switch)"
    using init_all_or_error[where lib = quiet and b = 255 and ?h0.0 = "[]"] by (simp add: init_demo)
  from n q show ?thesis by simp
qed

text \<open>
  C3, as stated, fails: when \<open>GPIO.setup\<close> raises, the construction ends with the
  trace below, whose last entry is the failed call, and the pixel output acquired by
  \<open>begin\<close> is still live.
\<close>

theorem init_leaks_pixel_strip_counterexample:
  "init (no_input_line :: nat platform) 255 [] =
     Inl (Raised (GPIO_setup_IN_PUD_UP 23),
          [Done (PixelStrip 1 18 800000 10 False 255 0), Done Strip_begin, Done GPIO_setmode_BCM,
           Failed (GPIO_setup_IN_PUD_UP 23)]) \<and>
   pixel_live (hw_of [Done (PixelStrip 1 18 800000 10 False 255 0), Done Strip_begin,
                      Done GPIO_setmode_BCM, Failed (GPIO_setup_IN_PUD_UP 23) :: nat entry]) = True"
  by (simp add: init_def call_def no_input_line_def hw_of_def hardware0_def LED_COUNT_def LED_PIN_def
      LED_FREQ_HZ_def LED_DMA_def LED_INVERT_def LED_CHANNEL_def BUTTON_PIN_def)

end
